theory Spec2Isabelle
  imports Main "HOL-Library.Sublist"
begin

text \<open>
  liteorm maps Go struct types to PostgreSQL tables: it derives a table name and column
  types from a struct type by reflection, builds the text of the create, insert and
  update statements, and reads and sets the identity field of a record. This theory
  embeds those functions of \<open>reflection.go\<close> and \<open>sql.go\<close>, with the reflection
  library, the formatting functions and the database driver modelled as far as the
  program depends on them, for a platform whose \<open>int\<close> has 64 bits.
\<close>

section \<open>Strings and the library functions the program calls\<close>

text \<open>
  A Go string is a sequence of bytes, here a \<open>string\<close>; a name outside ASCII is its
  UTF-8 encoding, whose bytes are all 128 or more. \<open>ascii_name\<close> says that a name has
  no such byte.

  \<open>ToLower\<close> is \<open>strings.ToLower\<close> on ASCII names: there the library maps the letters A
  to Z to a to z byte by byte and keeps every other byte. On a name with a byte of 128 or
  more the library lower-cases code points with its Unicode case tables, which this
  definition does not follow; the properties below that depend on the lower-casing of a
  name are stated for ASCII names.
\<close>

definition ascii_name :: "string \<Rightarrow> bool" where
  "ascii_name s = list_all (\<lambda>c. (of_char c :: nat) < 128) s"

definition lower_byte :: "char \<Rightarrow> char" where
  "lower_byte c =
     (let n = (of_char c :: nat) in if 65 \<le> n \<and> n \<le> 90 then char_of (n + 32) else c)"

definition ToLower :: "string \<Rightarrow> string" where
  "ToLower s = map lower_byte s"

text \<open>\<open>fmt.Sprintf("%d", n)\<close>: the decimal digits of \<open>n\<close>, with a minus sign when negative.\<close>

definition digit_char :: "nat \<Rightarrow> char" where
  "digit_char d = char_of (48 + d)"

fun nat_digits :: "nat \<Rightarrow> string" where
  "nat_digits n = (if n < 10 then [digit_char n] else nat_digits (n div 10) @ [digit_char (n mod 10)])"

declare nat_digits.simps [simp del]

definition Sprint_d :: "int \<Rightarrow> string" where
  "Sprint_d n = (if n < 0 then CHR ''-'' # nat_digits (nat (- n)) else nat_digits (nat n))"

text \<open>
  \<open>strconv.Atoi\<close> with a 64-bit \<open>int\<close>: an optional sign, then one or more decimal
  digits and nothing else; a value outside the range of \<open>int\<close> is an error as well. The
  program only tests whether an error came back, so the result is an \<open>option\<close>.
\<close>

definition is_digit :: "char \<Rightarrow> bool" where
  "is_digit c = (let n = (of_char c :: nat) in 48 \<le> n \<and> n \<le> 57)"

definition digit_val :: "char \<Rightarrow> int" where
  "digit_val c = int (of_char c) - 48"

definition digits_val :: "string \<Rightarrow> int" where
  "digits_val ds = foldl (\<lambda>n c. n * 10 + digit_val c) 0 ds"

definition Atoi :: "string \<Rightarrow> int option" where
  "Atoi s =
     (let neg = (s \<noteq> [] \<and> hd s = CHR ''-'');
          ds = (if s \<noteq> [] \<and> (hd s = CHR ''-'' \<or> hd s = CHR ''+'') then tl s else s)
      in if ds = [] \<or> \<not> list_all is_digit ds then None
         else let n = (if neg then - digits_val ds else digits_val ds)
              in if n < - (2 ^ 63) \<or> 2 ^ 63 \<le> n then None else Some n)"

section \<open>Types as the reflection library shows them\<close>

datatype kind =
    KInvalid | KBool | KInt | KInt8 | KInt16 | KInt32 | KInt64
  | KUint | KUint8 | KUint16 | KUint32 | KUint64 | KUintptr
  | KFloat32 | KFloat64 | KComplex64 | KComplex128
  | KArray | KChan | KFunc | KInterface | KMap | KPtr | KSlice | KString | KStruct
  | KUnsafePointer

text \<open>\<open>Kind.String()\<close>, which \<open>%s\<close> prints for a kind.\<close>

fun kind_name :: "kind \<Rightarrow> string" where
  "kind_name KInvalid = ''invalid''"
| "kind_name KBool = ''bool''"
| "kind_name KInt = ''int''"
| "kind_name KInt8 = ''int8''"
| "kind_name KInt16 = ''int16''"
| "kind_name KInt32 = ''int32''"
| "kind_name KInt64 = ''int64''"
| "kind_name KUint = ''uint''"
| "kind_name KUint8 = ''uint8''"
| "kind_name KUint16 = ''uint16''"
| "kind_name KUint32 = ''uint32''"
| "kind_name KUint64 = ''uint64''"
| "kind_name KUintptr = ''uintptr''"
| "kind_name KFloat32 = ''float32''"
| "kind_name KFloat64 = ''float64''"
| "kind_name KComplex64 = ''complex64''"
| "kind_name KComplex128 = ''complex128''"
| "kind_name KArray = ''array''"
| "kind_name KChan = ''chan''"
| "kind_name KFunc = ''func''"
| "kind_name KInterface = ''interface''"
| "kind_name KMap = ''map''"
| "kind_name KPtr = ''ptr''"
| "kind_name KSlice = ''slice''"
| "kind_name KString = ''string''"
| "kind_name KStruct = ''struct''"
| "kind_name KUnsafePointer = ''unsafe.Pointer''"

text \<open>
  A \<open>reflect.Type\<close>: the package path and the bare name of the type (both empty for an
  unnamed type such as \<open>[]byte\<close> or \<open>*T\<close>) and its structure. A struct tag is kept as
  the key/value pairs that \<open>StructTag.Get\<close> reads from it.
\<close>

type_synonym StructTag = "(string \<times> string) list"

datatype rtype = RType (PkgPath: string) (Name: string) (shape: shape)
and shape =
    TBool | TInt | TInt8 | TInt16 | TInt32 | TInt64
  | TUint | TUint8 | TUint16 | TUint32 | TUint64 | TUintptr
  | TFloat32 | TFloat64 | TComplex64 | TComplex128
  | TArray rtype | TChan rtype | TFunc | TInterface | TMap rtype rtype
  | TPtr rtype | TSlice rtype | TString | TStruct "StructField list"
  | TUnsafePointer
and StructField = StructField (FieldName: string) (FieldType: rtype) (Tag: StructTag)

fun shape_kind :: "shape \<Rightarrow> kind" where
  "shape_kind TBool = KBool"
| "shape_kind TInt = KInt"
| "shape_kind TInt8 = KInt8"
| "shape_kind TInt16 = KInt16"
| "shape_kind TInt32 = KInt32"
| "shape_kind TInt64 = KInt64"
| "shape_kind TUint = KUint"
| "shape_kind TUint8 = KUint8"
| "shape_kind TUint16 = KUint16"
| "shape_kind TUint32 = KUint32"
| "shape_kind TUint64 = KUint64"
| "shape_kind TUintptr = KUintptr"
| "shape_kind TFloat32 = KFloat32"
| "shape_kind TFloat64 = KFloat64"
| "shape_kind TComplex64 = KComplex64"
| "shape_kind TComplex128 = KComplex128"
| "shape_kind (TArray _) = KArray"
| "shape_kind (TChan _) = KChan"
| "shape_kind TFunc = KFunc"
| "shape_kind TInterface = KInterface"
| "shape_kind (TMap _ _) = KMap"
| "shape_kind (TPtr _) = KPtr"
| "shape_kind (TSlice _) = KSlice"
| "shape_kind TString = KString"
| "shape_kind (TStruct _) = KStruct"
| "shape_kind TUnsafePointer = KUnsafePointer"

definition Kind :: "rtype \<Rightarrow> kind" where
  "Kind t = shape_kind (shape t)"

text \<open>
  \<open>Type.Elem()\<close>, which the program calls on pointer and slice types only; \<open>None\<close>
  is the panic of the library on a type without an element type.
\<close>

fun Elem :: "rtype \<Rightarrow> rtype option" where
  "Elem (RType _ _ (TArray e)) = Some e"
| "Elem (RType _ _ (TChan e)) = Some e"
| "Elem (RType _ _ (TMap _ e)) = Some e"
| "Elem (RType _ _ (TPtr e)) = Some e"
| "Elem (RType _ _ (TSlice e)) = Some e"
| "Elem _ = None"

text \<open>
  \<open>Type.Elem().Kind()\<close>, which \<open>mapColumnType\<close> reads from a slice type. A slice type
  always has an element type (lemma \<open>Elem_slice\<close> below), so the case \<open>None\<close> does not
  occur there.
\<close>

definition elem_kind :: "rtype \<Rightarrow> kind" where
  "elem_kind t = (case Elem t of None \<Rightarrow> KInvalid | Some e \<Rightarrow> Kind e)"

text \<open>The fields of a struct type, in declaration order (\<open>NumField\<close> and \<open>Field(i)\<close>).\<close>

fun Fields :: "rtype \<Rightarrow> StructField list" where
  "Fields (RType _ _ (TStruct fs)) = fs"
| "Fields _ = []"

definition NumField :: "rtype \<Rightarrow> nat" where
  "NumField t = length (Fields t)"

definition Field :: "rtype \<Rightarrow> nat \<Rightarrow> StructField" where
  "Field t i = Fields t ! i"

definition TagGet :: "StructTag \<Rightarrow> string \<Rightarrow> string" where
  "TagGet tag key = (case map_of tag key of None \<Rightarrow> [] | Some v \<Rightarrow> v)"

section \<open>Errors\<close>

text \<open>
  An error of the program is its message: \<open>errors.New\<close> and \<open>fmt.Errorf\<close> build one
  from text, \<open>errors.Wrap\<close> puts a context message in front of another error, and the
  database driver returns errors of its own.
\<close>

datatype error = New string | Wrap error string | DriverError string

fun Error :: "error \<Rightarrow> string" where
  "Error (New m) = m"
| "Error (Wrap e m) = m @ '': '' @ Error e"
| "Error (DriverError m) = m"

section \<open>Column types (reflection.go)\<close>

definition idColumnType :: string where
  "idColumnType = ''bigserial''"

definition getLengthTag :: "StructField \<Rightarrow> error + int" where
  "getLengthTag field =
     (let stag = TagGet (Tag field) ''pglen'' in
      if stag = [] then Inl (New (''len tag not present for field '' @ FieldName field))
      else case Atoi stag of
             None \<Rightarrow> Inl (New (''len tag of field '' @ FieldName field @ '' cannot be converted to int''))
           | Some itag \<Rightarrow> Inr itag)"

definition mapColumnType :: "StructField \<Rightarrow> error + string" where
  "mapColumnType field =
     (let k = Kind (FieldType field) in
      if k = KInt then Inr ''int''
      else if k = KInt64 then Inr ''bigint''
      else if k = KString then
        (case getLengthTag field of
           Inl err \<Rightarrow> Inl err
         | Inr lenTag \<Rightarrow> Inr (''varchar('' @ Sprint_d lenTag @ '')''))
      else if k = KStruct then
        (let fieldTypeName = PkgPath (FieldType field) @ ''.'' @ Name (FieldType field) in
         if fieldTypeName = ''time.Time'' then Inr ''timestamp''
         else Inl (New (''unsupported struct type - '' @ fieldTypeName)))
      else if k = KSlice then
        (let fieldSliceKind = elem_kind (FieldType field) in
         if fieldSliceKind = KUint8 then Inr ''bytea''
         else Inl (New (''unsupported slice kind - '' @ kind_name fieldSliceKind)))
      else Inl (New (''unsupported field kind - '' @ kind_name k)))"

definition BuildTableName :: "rtype \<Rightarrow> string" where
  "BuildTableName t = ToLower (Name t) @ ''s''"

section \<open>Statement builders (sql.go)\<close>

text \<open>
  A call either returns or panics. \<open>NumField\<close> and \<open>Field\<close> of the reflection
  library panic on a type that is not a struct, so every builder that walks the fields
  panics on such a type before it has done anything else.
\<close>

datatype 'a outcome = Returns 'a | Panics

text \<open>\<open>nextIdx++\<close> on a 64-bit \<open>int\<close>.\<close>

definition incr :: "int \<Rightarrow> int" where
  "incr n = (if n = 2 ^ 63 - 1 then - (2 ^ 63) else n + 1)"

text \<open>
  The column text that one round of the loop of \<open>buildCreateStatement\<close> appends for
  its field, before the comma.
\<close>

definition create_column :: "StructField \<Rightarrow> error + string" where
  "create_column field =
     (let columnName = ToLower (FieldName field) in
      case (if columnName = ''id'' then Inr idColumnType else mapColumnType field) of
        Inl err \<Rightarrow> Inl err
      | Inr columnType \<Rightarrow>
          (let pgsqlTag = TagGet (Tag field) ''pgsql''
           in Inr (columnName @ '' '' @ columnType @ '' '' @ pgsqlTag)))"

function create_loop :: "rtype \<Rightarrow> nat \<Rightarrow> string \<Rightarrow> error + string" where
  "create_loop argt i sqlStatement =
     (if i < NumField argt then
        (case create_column (Field argt i) of
           Inl err \<Rightarrow> Inl err
         | Inr col \<Rightarrow>
             create_loop argt (i + 1)
               (if i + 1 < NumField argt then sqlStatement @ col @ '','' else sqlStatement @ col))
      else Inr sqlStatement)"
  by pat_completeness auto
termination
  by (relation "measure (\<lambda>(argt, i, s). NumField argt - i)") auto

declare create_loop.simps [simp del]

definition buildCreateStatement :: "rtype \<Rightarrow> (error + string) outcome" where
  "buildCreateStatement argt =
     (let tableName = BuildTableName argt in
      if Kind argt \<noteq> KStruct then Panics
      else case create_loop argt 0 (''create table '' @ tableName @ '' ('') of
             Inl err \<Rightarrow> Returns (Inl err)
           | Inr sqlStatement \<Rightarrow> Returns (Inr (sqlStatement @ '');'')))"

function insert_loop :: "rtype \<Rightarrow> nat \<Rightarrow> string \<Rightarrow> string \<Rightarrow> int \<Rightarrow> string \<times> string" where
  "insert_loop argt i columnNames valueIndices nextIdx =
     (if i < NumField argt then
        (let field = Field argt i in
         if FieldName field = ''ID'' then insert_loop argt (i + 1) columnNames valueIndices nextIdx
         else
           (let columnNames' = columnNames @ ToLower (FieldName field);
                valueIndices' = valueIndices @ ''$'' @ Sprint_d nextIdx
            in if i + 1 < NumField argt
               then insert_loop argt (i + 1) (columnNames' @ '','') (valueIndices' @ '','') (incr nextIdx)
               else insert_loop argt (i + 1) columnNames' valueIndices' (incr nextIdx)))
      else (columnNames, valueIndices))"
  by pat_completeness auto
termination
  by (relation "measure (\<lambda>(argt, i, c, v, n). NumField argt - i)") auto

declare insert_loop.simps [simp del]

definition buildInsertStatement :: "rtype \<Rightarrow> string outcome" where
  "buildInsertStatement argt =
     (if Kind argt \<noteq> KStruct then Panics
      else case insert_loop argt 0 [] [] 1 of
             (columnNames, valueIndices) \<Rightarrow>
               (let tableName = BuildTableName argt
                in Returns (''insert into '' @ tableName @ '' ('' @ columnNames @ '') values (''
                     @ valueIndices @ '') returning id;'')))"

function update_loop :: "rtype \<Rightarrow> nat \<Rightarrow> string \<Rightarrow> int \<Rightarrow> string \<times> int" where
  "update_loop argt i setText nextIdx =
     (if i < NumField argt then
        (let field = Field argt i in
         if FieldName field = ''ID'' then update_loop argt (i + 1) setText nextIdx
         else
           (let setText' = setText @ FieldName field @ '' = $'' @ Sprint_d nextIdx
            in if i + 1 < NumField argt
               then update_loop argt (i + 1) (setText' @ '','') (incr nextIdx)
               else update_loop argt (i + 1) setText' (incr nextIdx)))
      else (setText, nextIdx))"
  by pat_completeness auto
termination
  by (relation "measure (\<lambda>(argt, i, s, n). NumField argt - i)") auto

declare update_loop.simps [simp del]

definition buildUpdateStatement :: "rtype \<Rightarrow> string \<Rightarrow> int \<Rightarrow> (string \<times> int) outcome" where
  "buildUpdateStatement argt clauses nextIdx =
     (if Kind argt \<noteq> KStruct then Panics
      else case update_loop argt 0 [] nextIdx of
             (setText, nextIdx') \<Rightarrow>
               (let tableName = BuildTableName argt
                in Returns (''update '' @ tableName @ '' set '' @ setText @ '' '' @ clauses @ '';'', nextIdx')))"

definition buildDeleteStatement :: "rtype \<Rightarrow> string \<Rightarrow> string" where
  "buildDeleteStatement argt clauses =
     (let tableName = BuildTableName argt in ''delete from '' @ tableName @ '' '' @ clauses @ '';'')"

section \<open>Values as the reflection library shows them\<close>

text \<open>
  The data of a Go value: an integer (for a value of an integer kind), the field values
  of a struct in declaration order, what a pointer points to (\<open>None\<close> for a nil
  pointer), and any other data as uninterpreted text. An argument of type \<open>any\<close> is
  the nil interface or a value with its dynamic type.
\<close>

datatype gval = VInt int | VOther string | VStruct "gval list" | VPtr "gval option"

datatype any = NilInterface | Boxed rtype gval

text \<open>
  A \<open>reflect.Value\<close>: the zero Value, or a type and data with the two flags the program
  depends on, whether the value is addressable and whether it was reached through an
  unexported field (read-only).
\<close>

datatype Value = ZeroValue | Val rtype gval bool bool

definition TypeOf :: "any \<Rightarrow> rtype option" where
  "TypeOf arg = (case arg of NilInterface \<Rightarrow> None | Boxed t d \<Rightarrow> Some t)"

definition ValueOf :: "any \<Rightarrow> Value" where
  "ValueOf arg = (case arg of NilInterface \<Rightarrow> ZeroValue | Boxed t d \<Rightarrow> Val t d False False)"

definition vKind :: "Value \<Rightarrow> kind" where
  "vKind v = (case v of ZeroValue \<Rightarrow> KInvalid | Val t d a ro \<Rightarrow> Kind t)"

text \<open>\<open>Value.Elem()\<close> of a pointer: the zero Value for a nil pointer, else the
  addressable value it points to.\<close>

definition vElem :: "Value \<Rightarrow> Value" where
  "vElem v =
     (case v of
        Val t (VPtr (Some x)) a ro \<Rightarrow> (case Elem t of Some e \<Rightarrow> Val e x True ro | None \<Rightarrow> ZeroValue)
      | _ \<Rightarrow> ZeroValue)"

definition IsValid :: "Value \<Rightarrow> bool" where
  "IsValid v = (v \<noteq> ZeroValue)"

definition CanSet :: "Value \<Rightarrow> bool" where
  "CanSet v = (case v of ZeroValue \<Rightarrow> False | Val t d a ro \<Rightarrow> a \<and> \<not> ro)"

text \<open>
  A field name is exported when it starts with an upper-case letter. The definition
  tests for the letters A to Z, which is the library's test on names that start with an
  ASCII byte; a name that starts with another upper-case Unicode letter is not covered.
\<close>

definition exported :: "string \<Rightarrow> bool" where
  "exported name = (name \<noteq> [] \<and> (let n = (of_char (hd name) :: nat) in 65 \<le> n \<and> n \<le> 90))"

text \<open>\<open>Value.Field(i)\<close> of a struct value; \<open>None\<close> is the panic of the library.\<close>

definition vField :: "Value \<Rightarrow> nat \<Rightarrow> Value option" where
  "vField v i =
     (case v of
        Val t (VStruct vs) a ro \<Rightarrow>
          (if i < NumField t \<and> i < length vs
           then Some (Val (FieldType (Field t i)) (vs ! i) a (ro \<or> \<not> exported (FieldName (Field t i))))
           else None)
      | _ \<Rightarrow> None)"

text \<open>
  The position of the first field with the given name. \<open>FieldByName\<close> is modelled for
  the fields the struct declares itself (fields promoted from embedded structs are not
  looked up); it gives the zero Value when there is none.
\<close>

fun field_index :: "StructField list \<Rightarrow> string \<Rightarrow> nat option" where
  "field_index [] name = None"
| "field_index (f # fs) name =
     (if FieldName f = name then Some 0 else map_option Suc (field_index fs name))"

definition FieldByName :: "Value \<Rightarrow> string \<Rightarrow> Value" where
  "FieldByName v name =
     (case v of
        ZeroValue \<Rightarrow> ZeroValue
      | Val t d a ro \<Rightarrow>
          (case field_index (Fields t) name of
             None \<Rightarrow> ZeroValue
           | Some i \<Rightarrow> (case vField v i of None \<Rightarrow> ZeroValue | Some f \<Rightarrow> f)))"

text \<open>\<open>Value.Interface()\<close>; \<open>None\<close> is its panic on a read-only or zero Value.\<close>

definition Interface :: "Value \<Rightarrow> any option" where
  "Interface v = (case v of ZeroValue \<Rightarrow> None | Val t d a ro \<Rightarrow> (if ro then None else Some (Boxed t d)))"

definition int_kind :: "kind \<Rightarrow> bool" where
  "int_kind k = (k = KInt \<or> k = KInt8 \<or> k = KInt16 \<or> k = KInt32 \<or> k = KInt64)"

definition kind_bits :: "kind \<Rightarrow> nat" where
  "kind_bits k = (if k = KInt8 then 8 else if k = KInt16 then 16 else if k = KInt32 then 32 else 64)"

text \<open>The conversion of an integer to a signed integer of \<open>w\<close> bits.\<close>

definition wrap_signed :: "nat \<Rightarrow> int \<Rightarrow> int" where
  "wrap_signed w x = (x + 2 ^ (w - 1)) mod 2 ^ w - 2 ^ (w - 1)"

text \<open>
  \<open>Value.Int()\<close> and \<open>Value.SetInt(x)\<close>; \<open>None\<close> is their panic on a value that is not of
  a signed integer kind (\<open>SetInt\<close> also panics on a value that cannot be set). \<open>SetInt\<close>
  gives the data that is stored in the value.
\<close>

definition vInt :: "Value \<Rightarrow> int option" where
  "vInt v = (case v of Val t (VInt n) a ro \<Rightarrow> (if int_kind (Kind t) then Some n else None) | _ \<Rightarrow> None)"

definition SetInt :: "Value \<Rightarrow> int \<Rightarrow> gval option" where
  "SetInt v x =
     (case v of
        ZeroValue \<Rightarrow> None
      | Val t d a ro \<Rightarrow>
          (if \<not> CanSet v then None
           else if int_kind (Kind t) then Some (VInt (wrap_signed (kind_bits (Kind t)) x))
           else None))"

text \<open>
  Storing into a field reached through a pointer changes the struct the pointer points
  to; the model gives the argument back with that struct updated.
\<close>

definition store_field :: "any \<Rightarrow> string \<Rightarrow> gval \<Rightarrow> any" where
  "store_field arg name d =
     (case arg of
        Boxed t (VPtr (Some (VStruct vs))) \<Rightarrow>
          (case Elem t of
             None \<Rightarrow> arg
           | Some e \<Rightarrow>
               (case field_index (Fields e) name of
                  None \<Rightarrow> arg
                | Some i \<Rightarrow> Boxed t (VPtr (Some (VStruct (vs[i := d]))))))
      | _ \<Rightarrow> arg)"

section \<open>Reflection helpers (reflection.go)\<close>

definition getObjectValue :: "any \<Rightarrow> error + Value" where
  "getObjectValue arg =
     (let argv = ValueOf arg;
          argv' = (if vKind argv = KPtr then vElem argv else argv)
      in if vKind argv' \<noteq> KStruct
         then Inl (New ''provided argument is not a struct or pointer to struct'')
         else Inr argv')"

text \<open>\<open>reflect.TypeOf(nil)\<close> is the nil Type, and the call of its \<open>Kind\<close> panics.\<close>

definition getObjectType :: "any \<Rightarrow> (error + rtype) outcome" where
  "getObjectType arg =
     (case TypeOf arg of
        None \<Rightarrow> Panics
      | Some argt \<Rightarrow>
          (case (if Kind argt = KPtr then Elem argt else Some argt) of
             None \<Rightarrow> Panics
           | Some argt' \<Rightarrow>
               (if Kind argt' \<noteq> KStruct then Returns (Inl (New ''provided argument is not a pointer''))
                else Returns (Inr argt'))))"

text \<open>
  \<open>setIDValue\<close> returns its error and leaves the argument changed; the model returns
  both the error (\<open>None\<close> for nil) and the argument after the call.
\<close>

definition setIDValue :: "any \<Rightarrow> int \<Rightarrow> (error option \<times> any) outcome" where
  "setIDValue arg v =
     (case getObjectValue arg of
        Inl err \<Rightarrow> Returns (Some err, arg)
      | Inr argv \<Rightarrow>
          (let idField = FieldByName argv ''ID'' in
           if IsValid idField = False \<or> CanSet idField = False
           then Returns (Some (New ''could not set the ID field after inserting the object''), arg)
           else case SetInt idField v of
                  None \<Rightarrow> Panics
                | Some d \<Rightarrow> Returns (None, store_field arg ''ID'' d)))"

definition getIDValue :: "any \<Rightarrow> (error + int) outcome" where
  "getIDValue arg =
     (case getObjectValue arg of
        Inl err \<Rightarrow> Returns (Inl err)
      | Inr argv \<Rightarrow>
          (let idField = FieldByName argv ''ID'' in
           if IsValid idField = False
           then Returns (Inl (New ''could not set the ID field after inserting the object''))
           else case vInt idField of None \<Rightarrow> Panics | Some n \<Rightarrow> Returns (Inr n)))"

function values_loop :: "Value \<Rightarrow> rtype \<Rightarrow> nat \<Rightarrow> any list \<Rightarrow> any list outcome" where
  "values_loop argv argt i values =
     (if i < NumField argt then
        (let field = Field argt i in
         if FieldName field = ''ID'' then values_loop argv argt (i + 1) values
         else case vField argv i of
                None \<Rightarrow> Panics
              | Some f \<Rightarrow>
                  (case Interface f of
                     None \<Rightarrow> Panics
                   | Some x \<Rightarrow> values_loop argv argt (i + 1) (values @ [x])))
      else Returns values)"
  by pat_completeness auto
termination
  by (relation "measure (\<lambda>(argv, argt, i, vs). NumField argt - i)") auto

declare values_loop.simps [simp del]

definition buildStatementValues :: "any \<Rightarrow> (error + any list) outcome" where
  "buildStatementValues arg =
     (case getObjectValue arg of
        Inl err \<Rightarrow> Returns (Inl err)
      | Inr argv \<Rightarrow>
          (case argv of
             ZeroValue \<Rightarrow> Panics
           | Val argt d a ro \<Rightarrow>
               (case values_loop argv argt 0 [] of
                  Panics \<Rightarrow> Panics
                | Returns values \<Rightarrow> Returns (Inr values))))"

section \<open>The database facade\<close>

text \<open>
  The connection is the driver's: \<open>Exec\<close> gives the number of affected rows or an
  error, and \<open>QueryRowScan\<close> stands for \<open>QueryRow(...).Scan(&lastID)\<close>, which gives the
  scanned identity or an error.
\<close>

record Database =
  Exec :: "string \<Rightarrow> any list \<Rightarrow> error + int"
  QueryRowScan :: "string \<Rightarrow> any list \<Rightarrow> error + int"

definition int64_type :: rtype where
  "int64_type = RType [] ''int64'' TInt64"

text \<open>
  \<open>Insert\<close> calls \<open>setIDValue\<close> without assigning its result: the test of \<open>err\<close> that
  follows still reads the error of the scan, which is nil there.
\<close>

definition Insert :: "Database \<Rightarrow> any \<Rightarrow> (error option \<times> any) outcome" where
  "Insert db arg =
     (case getObjectType arg of
        Panics \<Rightarrow> Panics
      | Returns (Inl err) \<Rightarrow> Returns (Some (Wrap err ''could not insert object''), arg)
      | Returns (Inr argt) \<Rightarrow>
          (let errmsg = ''could not insert object of type '' @ Name argt in
           case buildInsertStatement argt of
             Panics \<Rightarrow> Panics
           | Returns statement \<Rightarrow>
               (case buildStatementValues arg of
                  Panics \<Rightarrow> Panics
                | Returns (Inl err) \<Rightarrow> Returns (Some (Wrap err ''could not insert object''), arg)
                | Returns (Inr values) \<Rightarrow>
                    (case QueryRowScan db statement values of
                       Inl err \<Rightarrow> Returns (Some (Wrap err errmsg), arg)
                     | Inr lastID \<Rightarrow>
                         (case setIDValue arg lastID of
                            Panics \<Rightarrow> Panics
                          | Returns (ignored, arg') \<Rightarrow> Returns (None, arg'))))))"

definition UpdateOne :: "Database \<Rightarrow> any \<Rightarrow> error option outcome" where
  "UpdateOne db arg =
     (case getObjectType arg of
        Panics \<Rightarrow> Panics
      | Returns (Inl err) \<Rightarrow> Returns (Some (Wrap err ''could not update object''))
      | Returns (Inr argt) \<Rightarrow>
          (let errmsg = ''could not update object of type '' @ Name argt in
           case buildUpdateStatement argt ''where id = $1'' 2 of
             Panics \<Rightarrow> Panics
           | Returns (statement, next) \<Rightarrow>
               (case buildStatementValues arg of
                  Panics \<Rightarrow> Panics
                | Returns (Inl err) \<Rightarrow> Returns (Some (Wrap err ''could not update object''))
                | Returns (Inr values) \<Rightarrow>
                    (case getIDValue arg of
                       Panics \<Rightarrow> Panics
                     | Returns (Inl err) \<Rightarrow> Returns (Some (Wrap err errmsg))
                     | Returns (Inr idv) \<Rightarrow>
                         (case Exec db statement (Boxed int64_type (VInt idv) # values) of
                            Inl err \<Rightarrow> Returns (Some (Wrap err ''could not update object''))
                          | Inr rowsAffected \<Rightarrow>
                              (if rowsAffected \<noteq> 1
                               then Returns (Some (New ''incorrect number of rows affected after updating the object''))
                               else Returns None))))))"

section \<open>Notions used to state the properties\<close>

text \<open>
  The functions of this section are not part of the program. \<open>join\<close> puts a separator
  between the elements of a list, \<open>non_id\<close> keeps the fields that are not named
  \<open>ID\<close>, \<open>idxs k m\<close> is the list of the \<open>m\<close> placeholder indices counted from
  \<open>k\<close>, \<open>trailing_comma\<close> is the comma that the insert and update loops leave at the
  end of their lists, and \<open>emit_fields\<close> is what those loops append for the fields they
  have not visited yet.
\<close>

fun join :: "string \<Rightarrow> string list \<Rightarrow> string" where
  "join sep [] = []"
| "join sep [x] = x"
| "join sep (x # y # ys) = x @ sep @ join sep (y # ys)"

definition non_id :: "StructField list \<Rightarrow> StructField list" where
  "non_id fs = filter (\<lambda>f. FieldName f \<noteq> ''ID'') fs"

fun idxs :: "int \<Rightarrow> nat \<Rightarrow> int list" where
  "idxs k 0 = []"
| "idxs k (Suc m) = k # idxs (incr k) m"

definition trailing_comma :: "StructField list \<Rightarrow> string" where
  "trailing_comma fs = (if non_id fs \<noteq> [] \<and> FieldName (last fs) = ''ID'' then '','' else [])"

fun emit_fields :: "(StructField \<Rightarrow> int \<Rightarrow> string) \<Rightarrow> int \<Rightarrow> StructField list \<Rightarrow> string" where
  "emit_fields item n [] = []"
| "emit_fields item n (f # r) =
     (if FieldName f = ''ID'' then emit_fields item n r
      else item f n @ (if r \<noteq> [] then '','' else []) @ emit_fields item (incr n) r)"


section \<open>Example record types\<close>

text \<open>
  The types of the examples below, as a Go program would declare them:
  \<^verbatim>\<open>
  type Item struct {
      ID   int64  `pgsql:"primary key"`
      Name string `pglen:"25"`
      Qty  int
  }
  type Tail struct {
      Name string `pglen:"25"`
      ID   int64
  }
  type Only struct {
      ID int64
  }
  type Mixed struct {
      Id bool
  }
  type Named struct {
      ID string
  }
  \<close>
\<close>

definition string_type :: rtype where
  "string_type = RType [] ''string'' TString"

definition int_type :: rtype where
  "int_type = RType [] ''int'' TInt"

definition bool_type :: rtype where
  "bool_type = RType [] ''bool'' TBool"

definition Item_type :: rtype where
  "Item_type = RType ''main'' ''Item'' (TStruct
     [StructField ''ID'' int64_type [(''pgsql'', ''primary key'')],
      StructField ''Name'' string_type [(''pglen'', ''25'')],
      StructField ''Qty'' int_type []])"

definition Tail_type :: rtype where
  "Tail_type = RType ''main'' ''Tail'' (TStruct
     [StructField ''Name'' string_type [(''pglen'', ''25'')],
      StructField ''ID'' int64_type []])"

definition Only_type :: rtype where
  "Only_type = RType ''main'' ''Only'' (TStruct [StructField ''ID'' int64_type []])"

definition Mixed_type :: rtype where
  "Mixed_type = RType ''main'' ''Mixed'' (TStruct [StructField ''Id'' bool_type []])"

definition Named_type :: rtype where
  "Named_type = RType ''main'' ''Named'' (TStruct [StructField ''ID'' string_type []])"

definition named_pointer :: any where
  "named_pointer = Boxed (RType [] [] (TPtr Named_type)) (VPtr (Some (VStruct [VOther ''a''])))"

text \<open>An \<open>Item\<close> that has not been inserted yet, and a pointer to it.\<close>

definition item_data :: gval where
  "item_data = VStruct [VInt 0, VOther ''lashbits.tech'', VInt 1337]"

definition item_value :: any where
  "item_value = Boxed Item_type item_data"

definition item_pointer :: any where
  "item_pointer = Boxed (RType [] [] (TPtr Item_type)) (VPtr (Some item_data))"

text \<open>A driver whose statements all succeed: \<open>rows\<close> rows affected, identity \<open>lastID\<close>.\<close>

definition driver :: "int \<Rightarrow> int \<Rightarrow> Database" where
  "driver rows lastID = \<lparr>Exec = (\<lambda>statement params. Inr rows), QueryRowScan = (\<lambda>statement params. Inr lastID)\<rparr>"

section \<open>Decimal numbers\<close>

lemma digit_char_is_digit: "d < 10 \<Longrightarrow> is_digit (digit_char d)"
  by (simp add: is_digit_def digit_char_def)

lemma digit_char_val: "d < 10 \<Longrightarrow> digit_val (digit_char d) = int d"
  by (simp add: digit_val_def digit_char_def)

lemma nat_digits_all: "list_all is_digit (nat_digits n)"
proof (induction n rule: nat_digits.induct)
  case (1 n)
  show ?case
  proof (cases "n < 10")
    case True
    then show ?thesis by (subst nat_digits.simps) (simp add: digit_char_is_digit)
  next
    case False
    then show ?thesis using 1 by (subst nat_digits.simps) (simp add: digit_char_is_digit)
  qed
qed

lemma nat_digits_nonempty: "nat_digits n \<noteq> []"
  by (subst nat_digits.simps) simp

lemma digits_val_snoc: "digits_val (ds @ [c]) = digits_val ds * 10 + digit_val c"
  by (simp add: digits_val_def)

lemma digits_val_nat_digits: "digits_val (nat_digits n) = int n"
proof (induction n rule: nat_digits.induct)
  case (1 n)
  show ?case
  proof (cases "n < 10")
    case True
    then show ?thesis by (subst nat_digits.simps) (simp add: digits_val_def digit_char_val)
  next
    case False
    then have "digits_val (nat_digits n) = digits_val (nat_digits (n div 10)) * 10 + digit_val (digit_char (n mod 10))"
      by (subst nat_digits.simps) (simp add: digits_val_snoc)
    also have "\<dots> = int (n div 10) * 10 + int (n mod 10)"
      using 1 False by (simp add: digit_char_val)
    also have "\<dots> = int n" by (simp add: zdiv_int zmod_int)
    finally show ?thesis .
  qed
qed

lemma is_digit_not_sign: "is_digit c \<Longrightarrow> c \<noteq> CHR ''-'' \<and> c \<noteq> CHR ''+''"
  by (auto simp: is_digit_def)

lemma hd_nat_digits_not_sign: "hd (nat_digits n) \<noteq> CHR ''-'' \<and> hd (nat_digits n) \<noteq> CHR ''+''"
proof -
  have "is_digit (hd (nat_digits n))"
    using nat_digits_all [of n] nat_digits_nonempty [of n]
    by (cases "nat_digits n") simp_all
  then show ?thesis by (rule is_digit_not_sign)
qed

lemma Atoi_Sprint_d:
  assumes "- (2 ^ 63) \<le> n" "n < 2 ^ 63"
  shows "Atoi (Sprint_d n) = Some n"
proof (cases "n < 0")
  case True
  then show ?thesis
    using assms nat_digits_all [of "nat (- n)"] nat_digits_nonempty [of "nat (- n)"]
    by (simp add: Atoi_def Sprint_d_def Let_def digits_val_nat_digits)
next
  case False
  then show ?thesis
    using assms nat_digits_all [of "nat n"] nat_digits_nonempty [of "nat n"] hd_nat_digits_not_sign [of "nat n"]
    by (simp add: Atoi_def Sprint_d_def Let_def digits_val_nat_digits)
qed

lemma Sprint_d_nonempty: "Sprint_d n \<noteq> []"
  by (simp add: Sprint_d_def nat_digits_nonempty)

section \<open>The loops of the statement builders\<close>

lemma join_Cons: "join sep (x # xs) = x @ (if xs = [] then [] else sep @ join sep xs)"
  by (cases xs) simp_all

lemma non_id_empty_last: "non_id r = [] \<Longrightarrow> r \<noteq> [] \<Longrightarrow> FieldName (last r) = ''ID''"
proof -
  assume a: "non_id r = []" and b: "r \<noteq> []"
  from b have "last r \<in> set r" by simp
  with a show ?thesis by (auto simp: non_id_def filter_empty_conv)
qed

lemma emit_fields_join:
  "emit_fields item n fs =
     join '','' (map (\<lambda>(f, j). item f j) (zip (non_id fs) (idxs n (length (non_id fs))))) @ trailing_comma fs"
proof (induction fs arbitrary: n)
  case Nil
  show ?case by (simp add: non_id_def trailing_comma_def)
next
  case (Cons f r)
  show ?case
  proof (cases "FieldName f = ''ID''")
    case True
    have "trailing_comma (f # r) = trailing_comma r"
      using True by (cases "r = []") (simp_all add: trailing_comma_def non_id_def)
    then show ?thesis using True Cons.IH [of n] by (simp add: non_id_def)
  next
    case False
    note nf = False
    show ?thesis
    proof (cases "r = []")
      case True
      then show ?thesis using nf by (simp add: non_id_def trailing_comma_def)
    next
      case False
      note rne = False
      show ?thesis
      proof (cases "non_id r = []")
        case True
        have "FieldName (last r) = ''ID''" using True rne by (rule non_id_empty_last)
        then have t: "trailing_comma (f # r) = '',''" using nf rne by (simp add: trailing_comma_def non_id_def)
        have "emit_fields item (incr n) r = []"
          using Cons.IH [of "incr n"] True by (simp add: trailing_comma_def)
        then show ?thesis using nf rne True t by (simp add: non_id_def)
      next
        case False
        have t: "trailing_comma (f # r) = trailing_comma r" using nf rne False by (simp add: trailing_comma_def non_id_def)
        have ne: "zip (non_id r) (idxs (incr n) (length (non_id r))) \<noteq> []"
          using False by (cases "non_id r") simp_all
        have nid: "non_id (f # r) = f # non_id r" using nf by (simp add: non_id_def)
        show ?thesis using nf rne Cons.IH [of "incr n"] ne
          by (simp add: nid t join_Cons)
      qed
    qed
  qed
qed

lemma drop_step: "i < length fs \<Longrightarrow> drop i fs = fs ! i # drop (Suc i) fs"
  by (simp add: Cons_nth_drop_Suc)

lemma insert_loop_emit:
  "i \<le> NumField argt \<Longrightarrow>
   insert_loop argt i c v n =
     (c @ emit_fields (\<lambda>f j. ToLower (FieldName f)) n (drop i (Fields argt)),
      v @ emit_fields (\<lambda>f j. ''$'' @ Sprint_d j) n (drop i (Fields argt)))"
proof (induction argt i c v n rule: insert_loop.induct)
  case (1 argt i c v n)
  show ?case
  proof (cases "i < NumField argt")
    case False
    then show ?thesis using "1.prems" by (subst insert_loop.simps) (simp add: NumField_def)
  next
    case True
    then have d: "drop i (Fields argt) = Field argt i # drop (Suc i) (Fields argt)"
      by (simp add: NumField_def Field_def drop_step)
    have e: "(drop (Suc i) (Fields argt) \<noteq> []) = (i + 1 < NumField argt)"
      by (auto simp: NumField_def)
    show ?thesis
    proof (cases "FieldName (Field argt i) = ''ID''")
      case True
      then show ?thesis using \<open>i < NumField argt\<close> "1.IH"(1) [OF \<open>i < NumField argt\<close> refl True]
        by (subst insert_loop.simps) (simp add: d Let_def)
    next
      case False
      show ?thesis
      proof (cases "i + 1 < NumField argt")
        case True
        then show ?thesis
          using \<open>i < NumField argt\<close> False e "1.IH"(2) [OF \<open>i < NumField argt\<close> refl False refl refl True]
          by (subst insert_loop.simps) (simp add: d Let_def)
      next
        case False
        then show ?thesis
          using \<open>i < NumField argt\<close> \<open>FieldName (Field argt i) \<noteq> ''ID''\<close> e
            "1.IH"(3) [OF \<open>i < NumField argt\<close> refl \<open>FieldName (Field argt i) \<noteq> ''ID''\<close> refl refl False]
          by (subst insert_loop.simps) (simp add: d Let_def)
      qed
    qed
  qed
qed


lemma update_loop_emit:
  "i \<le> NumField argt \<Longrightarrow>
   update_loop argt i s n =
     (s @ emit_fields (\<lambda>f j. FieldName f @ '' = $'' @ Sprint_d j) n (drop i (Fields argt)),
      (incr ^^ length (non_id (drop i (Fields argt)))) n)"
proof (induction argt i s n rule: update_loop.induct)
  case (1 argt i s n)
  show ?case
  proof (cases "i < NumField argt")
    case False
    then show ?thesis using "1.prems" by (subst update_loop.simps) (simp add: NumField_def non_id_def)
  next
    case True
    then have d: "drop i (Fields argt) = Field argt i # drop (Suc i) (Fields argt)"
      by (simp add: NumField_def Field_def drop_step)
    have e: "(drop (Suc i) (Fields argt) \<noteq> []) = (i + 1 < NumField argt)"
      by (auto simp: NumField_def)
    show ?thesis
    proof (cases "FieldName (Field argt i) = ''ID''")
      case True
      then show ?thesis using \<open>i < NumField argt\<close> "1.IH"(1) [OF \<open>i < NumField argt\<close> refl True]
        by (subst update_loop.simps) (simp add: d Let_def non_id_def)
    next
      case False
      show ?thesis
      proof (cases "i + 1 < NumField argt")
        case True
        then show ?thesis
          using \<open>i < NumField argt\<close> False e "1.IH"(2) [OF \<open>i < NumField argt\<close> refl False refl True]
          by (subst update_loop.simps) (simp add: d Let_def non_id_def funpow_swap1)
      next
        case False
        then show ?thesis
          using \<open>i < NumField argt\<close> \<open>FieldName (Field argt i) \<noteq> ''ID''\<close> e
            "1.IH"(3) [OF \<open>i < NumField argt\<close> refl \<open>FieldName (Field argt i) \<noteq> ''ID''\<close> refl False]
          by (subst update_loop.simps) (simp add: d Let_def non_id_def funpow_swap1)
      qed
    qed
  qed
qed

lemma create_loop_join:
  "i \<le> NumField argt \<Longrightarrow> map create_column (drop i (Fields argt)) = map Inr cols \<Longrightarrow>
   create_loop argt i s = Inr (s @ join '','' cols)"
proof (induction cols arbitrary: i s)
  case Nil
  then have "\<not> i < NumField argt" by (simp add: NumField_def)
  then show ?case by (subst create_loop.simps) simp
next
  case (Cons c cols)
  from Cons.prems have lt: "i < NumField argt"
    by (cases "i < NumField argt") (auto simp: NumField_def)
  then have d: "drop i (Fields argt) = Field argt i # drop (Suc i) (Fields argt)"
    by (simp add: NumField_def Field_def drop_step)
  with Cons.prems have c: "create_column (Field argt i) = Inr c"
    and r: "map create_column (drop (Suc i) (Fields argt)) = map Inr cols"
    by simp_all
  have e: "(cols \<noteq> []) = (i + 1 < NumField argt)"
  proof -
    have "length cols = length (drop (Suc i) (Fields argt))"
      using r by (metis length_map)
    then show ?thesis by (cases cols) (auto simp: NumField_def)
  qed
  have "create_loop argt (Suc i) (if i + 1 < NumField argt then s @ c @ '','' else s @ c)
          = Inr ((if i + 1 < NumField argt then s @ c @ '','' else s @ c) @ join '','' cols)"
    using lt r by (intro Cons.IH) simp_all
  then show ?case using lt c e
    by (subst create_loop.simps) (auto simp: join_Cons)
qed

lemma map_zip_fst: "length ys = length xs \<Longrightarrow> map (\<lambda>(f, j). g f) (zip xs ys) = map g xs"
  by (induction xs arbitrary: ys) (auto simp: length_Suc_conv)

lemma map_zip_snd: "length ys = length xs \<Longrightarrow> map (\<lambda>(f, j). g j) (zip xs ys) = map g ys"
  by (induction xs arbitrary: ys) (auto simp: length_Suc_conv)

lemma length_idxs: "length (idxs k m) = m"
  by (induction m arbitrary: k) simp_all

lemma incr_no_wrap: "n < 2 ^ 63 - 1 \<Longrightarrow> incr n = n + 1"
  by (simp add: incr_def)

lemma idxs_no_wrap: "k + int m < 2 ^ 63 \<Longrightarrow> idxs k m = map (\<lambda>j. k + int j) [0..<m]"
proof (induction m arbitrary: k)
  case 0
  show ?case by simp
next
  case (Suc m)
  then have i: "incr k = k + 1" by (simp add: incr_def)
  have "idxs (k + 1) m = map (\<lambda>j. k + 1 + int j) [0..<m]"
    using Suc.prems by (intro Suc.IH) simp
  then show ?case
    by (simp add: i upt_conv_Cons map_Suc_upt [symmetric] del: upt_Suc)
qed

lemma funpow_incr_no_wrap: "k + int m < 2 ^ 63 \<Longrightarrow> (incr ^^ m) k = k + int m"
proof (induction m arbitrary: k)
  case 0
  show ?case by simp
next
  case (Suc m)
  then have i: "incr k = k + 1" by (simp add: incr_def)
  have "(incr ^^ m) (k + 1) = k + 1 + int m"
    using Suc.prems by (intro Suc.IH) simp
  then show ?case by (simp add: funpow_swap1 i)
qed

lemma buildInsertStatement_eq:
  assumes "Kind argt = KStruct"
  shows "buildInsertStatement argt =
     Returns (''insert into '' @ BuildTableName argt @ '' (''
       @ join '','' (map (\<lambda>f. ToLower (FieldName f)) (non_id (Fields argt))) @ trailing_comma (Fields argt)
       @ '') values (''
       @ join '','' (map (\<lambda>j. ''$'' @ Sprint_d j) (idxs 1 (length (non_id (Fields argt))))) @ trailing_comma (Fields argt)
       @ '') returning id;'')"
  using assms
  by (simp add: buildInsertStatement_def insert_loop_emit emit_fields_join map_zip_fst map_zip_snd length_idxs)

lemma buildUpdateStatement_eq:
  assumes "Kind argt = KStruct"
  shows "buildUpdateStatement argt clauses k =
     Returns (''update '' @ BuildTableName argt @ '' set ''
       @ join '','' (map (\<lambda>(f, j). FieldName f @ '' = $'' @ Sprint_d j)
            (zip (non_id (Fields argt)) (idxs k (length (non_id (Fields argt))))))
       @ trailing_comma (Fields argt) @ '' '' @ clauses @ '';'',
       (incr ^^ length (non_id (Fields argt))) k)"
  using assms
  by (simp add: buildUpdateStatement_def update_loop_emit emit_fields_join)

lemma buildCreateStatement_eq:
  assumes "Kind argt = KStruct" "map create_column (Fields argt) = map Inr cols"
  shows "buildCreateStatement argt =
     Returns (Inr (''create table '' @ BuildTableName argt @ '' ('' @ join '','' cols @ '');''))"
  using assms create_loop_join [of 0 argt cols]
  by (simp add: buildCreateStatement_def)

section \<open>Helper facts about the model\<close>

lemma lower_byte_idem: "lower_byte (lower_byte c) = lower_byte c"
  by (simp add: lower_byte_def Let_def)

lemma ToLower_idem: "ToLower (ToLower s) = ToLower s"
  by (simp add: ToLower_def lower_byte_idem)

lemma ToLower_ID: "ToLower ''ID'' = ''id''"
  by code_simp

lemma mapColumnType_not_bigserial: "mapColumnType f \<noteq> Inr ''bigserial''"
  by (auto simp: mapColumnType_def Let_def split: sum.splits option.splits)

lemma Elem_slice: "Kind t = KSlice \<Longrightarrow> \<exists>e. Elem t = Some e"
  by (cases t; cases "shape t") (simp_all add: Kind_def)

lemma Insert_discards_setIDValue_result:
  assumes "getObjectType arg = Returns (Inr argt)"
    and "buildInsertStatement argt = Returns statement"
    and "buildStatementValues arg = Returns (Inr values)"
    and "QueryRowScan db statement values = Inr lastID"
    and "setIDValue arg lastID = Returns (r, arg')"
  shows "Insert db arg = Returns (None, arg')"
  using assms by (simp add: Insert_def)

lemma Insert_through_pointer:
  "Insert (driver 1 7) item_pointer
     = Returns (None, Boxed (RType [] [] (TPtr Item_type))
         (VPtr (Some (VStruct [VInt 7, VOther ''lashbits.tech'', VInt 1337]))))"
  by code_simp

lemma buildUpdateStatement_no_wrap:
  assumes "Kind argt = KStruct" and "k + int (length (non_id (Fields argt))) < 2 ^ 63"
  shows "buildUpdateStatement argt clauses k =
     Returns (''update '' @ BuildTableName argt @ '' set ''
       @ join '','' (map (\<lambda>(f, j). FieldName f @ '' = $'' @ Sprint_d j)
            (zip (non_id (Fields argt)) (map (\<lambda>j. k + int j) [0..<length (non_id (Fields argt))])))
       @ trailing_comma (Fields argt) @ '' '' @ clauses @ '';'',
       k + int (length (non_id (Fields argt))))"
  using assms
  by (simp add: buildUpdateStatement_eq idxs_no_wrap funpow_incr_no_wrap)

section \<open>The claims\<close>

text \<open>
  C1, as amended. The create statement gives the column of a field named \<open>ID\<close> the type
  \<open>bigserial\<close> whatever the field's type and tags are, followed by the text of the
  field's \<open>pgsql\<close> tag as it is: a primary-key constraint is there only when the tag has
  it. A field whose lower-cased name is not \<open>id\<close> gets its type from
  \<open>mapColumnType\<close>, which never gives \<open>bigserial\<close>. The statement is the list of these
  columns, separated by commas. The parts that depend on the lower-casing of a name are
  stated for names in ASCII.
\<close>

theorem create_column_identity:
  "(FieldName f = ''ID'' \<longrightarrow> create_column f = Inr (''id bigserial '' @ TagGet (Tag f) ''pgsql''))
   \<and> (ascii_name (FieldName f) \<and> ToLower (FieldName f) \<noteq> ''id'' \<longrightarrow>
        create_column f =
          (case mapColumnType f of
             Inl err \<Rightarrow> Inl err
           | Inr ty \<Rightarrow> Inr (ToLower (FieldName f) @ '' '' @ ty @ '' '' @ TagGet (Tag f) ''pgsql''))
        \<and> mapColumnType f \<noteq> Inr ''bigserial'')
   \<and> (Kind argt = KStruct \<and> ascii_name (Name argt)
        \<and> list_all (\<lambda>g. ascii_name (FieldName g)) (Fields argt)
        \<and> map create_column (Fields argt) = map Inr cols \<longrightarrow>
        buildCreateStatement argt =
          Returns (Inr (''create table '' @ BuildTableName argt @ '' ('' @ join '','' cols @ '');'')))"
  by (auto simp: create_column_def Let_def ToLower_ID idColumnType_def mapColumnType_not_bigserial
      buildCreateStatement_eq split: sum.splits)

theorem create_column_identity_witness:
  "create_column (StructField ''ID'' string_type []) = Inr ''id bigserial ''
   \<and> ascii_name ''Qty''
   \<and> create_column (StructField ''Qty'' int_type []) = Inr ''qty int ''
   \<and> ascii_name (Name Item_type)
   \<and> list_all (\<lambda>g. ascii_name (FieldName g)) (Fields Item_type)
   \<and> buildCreateStatement Item_type
       = Returns (Inr ''create table items (id bigserial primary key,name varchar(25) ,qty int );'')"
proof -
  note t = create_column_identity [of "StructField ''ID'' string_type []" Item_type
      "[''id bigserial primary key'', ''name varchar(25) '', ''qty int '']"]
  note u = create_column_identity [of "StructField ''Qty'' int_type []" Item_type "[]"]
  have a: "create_column (StructField ''ID'' string_type []) = Inr ''id bigserial ''"
    using t by (simp add: TagGet_def)
  have q: "ascii_name ''Qty''" by code_simp
  have l: "ToLower (FieldName (StructField ''Qty'' int_type [])) \<noteq> ''id''" by code_simp
  have m: "(case mapColumnType (StructField ''Qty'' int_type []) of
             Inl err \<Rightarrow> Inl err
           | Inr ty \<Rightarrow> Inr (ToLower (FieldName (StructField ''Qty'' int_type [])) @ '' '' @ ty @ '' ''
               @ TagGet (Tag (StructField ''Qty'' int_type [])) ''pgsql'')) = Inr ''qty int ''"
    by code_simp
  have b: "create_column (StructField ''Qty'' int_type []) = Inr ''qty int ''"
    using u q l m by simp
  have k: "Kind Item_type = KStruct" by code_simp
  have an: "ascii_name (Name Item_type)" by code_simp
  have af: "list_all (\<lambda>g. ascii_name (FieldName g)) (Fields Item_type)" by code_simp
  have c: "map create_column (Fields Item_type)
      = map Inr [''id bigserial primary key'', ''name varchar(25) '', ''qty int '']"
    by code_simp
  have n: "BuildTableName Item_type = ''items''" by code_simp
  have d: "buildCreateStatement Item_type
       = Returns (Inr ''create table items (id bigserial primary key,name varchar(25) ,qty int );'')"
    using t k an af c n by simp
  from a q b an af d show ?thesis by simp
qed

theorem create_primary_key_counterexample:
  "buildCreateStatement Only_type = Returns (Inr ''create table onlys (id bigserial );'')
   \<and> buildCreateStatement Mixed_type = Returns (Inr ''create table mixeds (id bigserial );'')"
  by code_simp

text \<open>
  C2. \<open>Insert\<close> of an \<open>Item\<close> passed by value, with a round trip that succeeds and
  returns the identity 7: \<open>setIDValue\<close> reports that the field cannot be set, and
  \<open>Insert\<close> returns no error and leaves the identity at zero.
\<close>

theorem Insert_by_value_reports_success:
  "setIDValue item_value 7
     = Returns (Some (New ''could not set the ID field after inserting the object''), item_value)
   \<and> Insert (driver 1 7) item_value = Returns (None, item_value)"
  by code_simp

text \<open>
  C3. The update statement of \<open>Item\<close> with the clause and start index of \<open>UpdateOne\<close>:
  the SET list assigns to the field names as declared (\<open>Name\<close>, \<open>Qty\<close>), not to
  the lower-cased column names; the placeholders and the returned index are as claimed.
\<close>

theorem buildUpdateStatement_keeps_field_case:
  "buildUpdateStatement Item_type ''where id = $1'' 2
     = Returns (''update items set Name = $2,Qty = $3 where id = $1;'', 4)"
  by code_simp

text \<open>
  C4, as amended. For a field of string kind, the column type is \<open>varchar(N)\<close> with
  \<open>N\<close> the integer that the \<open>pglen\<close> tag reads as, for every tag that is a decimal
  integer in the range of \<open>int\<close>, zero and negative values included. The derivation
  fails with the missing-tag error when the tag is absent or empty, and with the
  invalid-tag error when the text of the tag is not such an integer.
\<close>

theorem mapColumnType_string:
  assumes "Kind (FieldType f) = KString"
  shows "mapColumnType f =
     (if TagGet (Tag f) ''pglen'' = [] then Inl (New (''len tag not present for field '' @ FieldName f))
      else case Atoi (TagGet (Tag f) ''pglen'') of
             None \<Rightarrow> Inl (New (''len tag of field '' @ FieldName f @ '' cannot be converted to int''))
           | Some n \<Rightarrow> Inr (''varchar('' @ Sprint_d n @ '')''))
   \<and> (\<forall>n. - (2 ^ 63) \<le> n \<and> n < 2 ^ 63 \<and> TagGet (Tag f) ''pglen'' = Sprint_d n
        \<longrightarrow> mapColumnType f = Inr (''varchar('' @ Sprint_d n @ '')''))"
  using assms
  by (auto simp: mapColumnType_def getLengthTag_def Let_def Atoi_Sprint_d Sprint_d_nonempty
      split: option.splits)

theorem mapColumnType_string_witness:
  "mapColumnType (StructField ''Name'' string_type [(''pglen'', ''25'')]) = Inr ''varchar(25)''
   \<and> mapColumnType (StructField ''Name'' string_type [])
       = Inl (New ''len tag not present for field Name'')
   \<and> mapColumnType (StructField ''Name'' string_type [(''pglen'', ''2x'')])
       = Inl (New ''len tag of field Name cannot be converted to int'')
   \<and> mapColumnType (StructField ''Name'' string_type [(''pglen'', ''-12'')]) = Inr ''varchar(-12)''"
proof -
  have k: "\<And>tag. Kind (FieldType (StructField ''Name'' string_type tag)) = KString"
    by (simp add: string_type_def Kind_def)
  have a: "Atoi ''25'' = Some 25" by code_simp
  have s: "Sprint_d 25 = ''25''" by code_simp
  have b: "Atoi ''2x'' = None" by code_simp
  have m: "Sprint_d (- 12) = ''-12''" by code_simp
  have 1: "mapColumnType (StructField ''Name'' string_type [(''pglen'', ''25'')]) = Inr ''varchar(25)''"
    using mapColumnType_string [OF k [of "[(''pglen'', ''25'')]"]] a s by (simp add: TagGet_def)
  have 2: "mapColumnType (StructField ''Name'' string_type [])
       = Inl (New ''len tag not present for field Name'')"
    using mapColumnType_string [OF k [of "[]"]] by (simp add: TagGet_def)
  have 3: "mapColumnType (StructField ''Name'' string_type [(''pglen'', ''2x'')])
       = Inl (New ''len tag of field Name cannot be converted to int'')"
    using mapColumnType_string [OF k [of "[(''pglen'', ''2x'')]"]] b by (simp add: TagGet_def)
  have r: "- (2 ^ 63) \<le> (- 12 :: int) \<and> (- 12 :: int) < 2 ^ 63
      \<and> TagGet (Tag (StructField ''Name'' string_type [(''pglen'', ''-12'')])) ''pglen'' = Sprint_d (- 12)"
    by (simp add: TagGet_def m)
  have 4: "mapColumnType (StructField ''Name'' string_type [(''pglen'', ''-12'')]) = Inr ''varchar(-12)''"
    using mapColumnType_string [OF k [of "[(''pglen'', ''-12'')]"], THEN conjunct2, rule_format, OF r] m
    by simp
  from 1 2 3 4 show ?thesis by simp
qed

theorem mapColumnType_length_counterexample:
  "mapColumnType (StructField ''Name'' string_type [(''pglen'', ''0'')]) = Inr ''varchar(0)''
   \<and> mapColumnType (StructField ''Name'' string_type [(''pglen'', ''-5'')]) = Inr ''varchar(-5)''"
  by code_simp

text \<open>
  C5, as amended. For a field whose type is none of the supported ones, the mapping
  fails with an error whose message names the type of the field: the package path and
  name of a struct type, the kind of the elements of a slice, the kind of any other
  type. The message does not name the field: it is the same for every field name.
\<close>

theorem mapColumnType_unsupported:
  assumes "k = Kind (FieldType f)"
    and "k \<noteq> KInt" and "k \<noteq> KInt64" and "k \<noteq> KString"
    and "k = KStruct \<longrightarrow> PkgPath (FieldType f) @ ''.'' @ Name (FieldType f) \<noteq> ''time.Time''"
    and "k = KSlice \<longrightarrow> elem_kind (FieldType f) \<noteq> KUint8"
  shows "mapColumnType f =
      Inl (New (if k = KStruct
                then ''unsupported struct type - '' @ PkgPath (FieldType f) @ ''.'' @ Name (FieldType f)
                else if k = KSlice
                then ''unsupported slice kind - '' @ kind_name (elem_kind (FieldType f))
                else ''unsupported field kind - '' @ kind_name k))
   \<and> mapColumnType (StructField name' (FieldType f) (Tag f)) = mapColumnType f"
  using assms
  by (auto simp: mapColumnType_def Let_def elem_kind_def split: option.splits)

theorem mapColumnType_unsupported_witness:
  "mapColumnType (StructField ''Flag'' bool_type []) = Inl (New ''unsupported field kind - bool'')
   \<and> mapColumnType (StructField ''Other'' bool_type []) = mapColumnType (StructField ''Flag'' bool_type [])
   \<and> mapColumnType (StructField ''Owner'' Item_type []) = Inl (New ''unsupported struct type - main.Item'')
   \<and> mapColumnType (StructField ''Names'' (RType [] [] (TSlice string_type)) [])
       = Inl (New ''unsupported slice kind - string'')"
proof -
  have k: "KBool = Kind (FieldType (StructField ''Flag'' bool_type []))"
    by (simp add: bool_type_def Kind_def)
  have a: "mapColumnType (StructField ''Flag'' bool_type []) = Inl (New ''unsupported field kind - bool'')
      \<and> mapColumnType (StructField ''Other'' bool_type []) = mapColumnType (StructField ''Flag'' bool_type [])"
    using mapColumnType_unsupported [OF k, of "''Other''"] by simp
  have s: "KStruct = Kind (FieldType (StructField ''Owner'' Item_type []))"
    by (simp add: Item_type_def Kind_def)
  have p: "PkgPath (FieldType (StructField ''Owner'' Item_type [])) @ ''.''
      @ Name (FieldType (StructField ''Owner'' Item_type [])) = ''main.Item''"
    by (simp add: Item_type_def)
  have b: "mapColumnType (StructField ''Owner'' Item_type []) = Inl (New ''unsupported struct type - main.Item'')"
    using mapColumnType_unsupported [OF s, of "''Owner''"] p by simp
  have l: "KSlice = Kind (FieldType (StructField ''Names'' (RType [] [] (TSlice string_type)) []))"
    by (simp add: Kind_def)
  have e: "elem_kind (FieldType (StructField ''Names'' (RType [] [] (TSlice string_type)) [])) = KString"
    by (simp add: elem_kind_def string_type_def Kind_def)
  have c: "mapColumnType (StructField ''Names'' (RType [] [] (TSlice string_type)) [])
       = Inl (New ''unsupported slice kind - string'')"
    using mapColumnType_unsupported [OF l, of "''Names''"] e by simp
  from a b c show ?thesis by simp
qed

theorem mapColumnType_message_counterexample:
  "mapColumnType (StructField ''Flag'' bool_type []) = Inl (New ''unsupported field kind - bool'')
   \<and> \<not> sublist ''Flag'' ''unsupported field kind - bool''"
  by code_simp

text \<open>
  C6. The insert statement of \<open>Tail\<close>, whose \<open>ID\<close> field is declared last: the column
  list and the placeholder list both end with a comma.
\<close>

theorem buildInsertStatement_id_last:
  "buildInsertStatement Tail_type = Returns ''insert into tails (name,) values ($1,) returning id;''"
  by code_simp

text \<open>
  C7. \<open>UpdateOne\<close> returns the row-count error exactly when the update was executed
  without a driver error and the driver reported a number of affected rows other than 1;
  when it reported exactly 1, \<open>UpdateOne\<close> returns no error.
\<close>

theorem UpdateOne_row_count:
  "(UpdateOne db arg = Returns (Some (New ''incorrect number of rows affected after updating the object'')))
     = (\<exists>argt statement next values idv n.
          getObjectType arg = Returns (Inr argt)
          \<and> buildUpdateStatement argt ''where id = $1'' 2 = Returns (statement, next)
          \<and> buildStatementValues arg = Returns (Inr values)
          \<and> getIDValue arg = Returns (Inr idv)
          \<and> Exec db statement (Boxed int64_type (VInt idv) # values) = Inr n
          \<and> n \<noteq> 1)
   \<and> (\<forall>argt statement next values idv.
          getObjectType arg = Returns (Inr argt)
          \<and> buildUpdateStatement argt ''where id = $1'' 2 = Returns (statement, next)
          \<and> buildStatementValues arg = Returns (Inr values)
          \<and> getIDValue arg = Returns (Inr idv)
          \<and> Exec db statement (Boxed int64_type (VInt idv) # values) = Inr 1
          \<longrightarrow> UpdateOne db arg = Returns None)"
  by (auto simp: UpdateOne_def Let_def split: outcome.splits sum.splits prod.splits)

theorem UpdateOne_row_count_witness:
  "UpdateOne (driver 0 7) item_pointer
     = Returns (Some (New ''incorrect number of rows affected after updating the object''))
   \<and> UpdateOne (driver 1 7) item_pointer = Returns None"
proof -
  have t: "getObjectType item_pointer = Returns (Inr Item_type)" by code_simp
  have s: "buildUpdateStatement Item_type ''where id = $1'' 2
      = Returns (''update items set Name = $2,Qty = $3 where id = $1;'', 4)" by code_simp
  have v: "buildStatementValues item_pointer
      = Returns (Inr [Boxed string_type (VOther ''lashbits.tech''), Boxed int_type (VInt 1337)])"
    by code_simp
  have i: "getIDValue item_pointer = Returns (Inr 0)" by code_simp
  have e: "\<And>rows st ps. Exec (driver rows 7) st ps = Inr rows" by (simp add: driver_def)
  have z: "(0::int) \<noteq> 1" by simp
  have a: "UpdateOne (driver 0 7) item_pointer
     = Returns (Some (New ''incorrect number of rows affected after updating the object''))"
    using UpdateOne_row_count [of "driver 0 7" item_pointer, THEN conjunct1] t s v i e z by blast
  have b: "UpdateOne (driver 1 7) item_pointer = Returns None"
    using UpdateOne_row_count [of "driver 1 7" item_pointer, THEN conjunct2] t s v i e by blast
  from a b show ?thesis by (rule conjI)
qed



text \<open>
  C9, as amended. The insert statement ends its column list and its placeholder list
  with a comma, and the update statement ends its SET list with a comma, exactly when
  the last declared field is named \<open>ID\<close> and the struct has at least one other field;
  otherwise the lists are the items separated by commas and nothing else.
\<close>

theorem builders_trailing_comma:
  assumes "Kind argt = KStruct" and "fs = Fields argt"
  shows "buildInsertStatement argt =
     Returns (''insert into '' @ BuildTableName argt @ '' (''
       @ join '','' (map (\<lambda>f. ToLower (FieldName f)) (non_id fs)) @ trailing_comma fs
       @ '') values (''
       @ join '','' (map (\<lambda>j. ''$'' @ Sprint_d j) (idxs 1 (length (non_id fs)))) @ trailing_comma fs
       @ '') returning id;'')
   \<and> buildUpdateStatement argt clauses k =
     Returns (''update '' @ BuildTableName argt @ '' set ''
       @ join '','' (map (\<lambda>(f, j). FieldName f @ '' = $'' @ Sprint_d j)
            (zip (non_id fs) (idxs k (length (non_id fs)))))
       @ trailing_comma fs @ '' '' @ clauses @ '';'',
       (incr ^^ length (non_id fs)) k)
   \<and> trailing_comma fs
       = (if fs \<noteq> [] \<and> FieldName (last fs) = ''ID'' \<and> list_ex (\<lambda>f. FieldName f \<noteq> ''ID'') fs
          then '','' else [])"
proof -
  have "trailing_comma fs
       = (if fs \<noteq> [] \<and> FieldName (last fs) = ''ID'' \<and> list_ex (\<lambda>f. FieldName f \<noteq> ''ID'') fs
          then '','' else [])"
    by (auto simp: trailing_comma_def non_id_def filter_empty_conv list_ex_iff)
  then show ?thesis
    using assms buildInsertStatement_eq [of argt] buildUpdateStatement_eq [of argt clauses k]
    by simp
qed

theorem builders_trailing_comma_witness:
  "buildInsertStatement Tail_type = Returns ''insert into tails (name,) values ($1,) returning id;''
   \<and> buildUpdateStatement Tail_type ''where id = $1'' 2
       = Returns (''update tails set Name = $2, where id = $1;'', 3)
   \<and> trailing_comma (Fields Tail_type) = '',''"
proof -
  have k: "Kind Tail_type = KStruct" by code_simp
  note t = builders_trailing_comma [OF k refl, of "''where id = $1''" 2]
  have 1: "BuildTableName Tail_type = ''tails''" by code_simp
  have 2: "join '','' (map (\<lambda>f. ToLower (FieldName f)) (non_id (Fields Tail_type))) = ''name''"
    by code_simp
  have 3: "join '','' (map (\<lambda>j. ''$'' @ Sprint_d j) (idxs 1 (length (non_id (Fields Tail_type))))) = ''$1''"
    by code_simp
  have 4: "join '','' (map (\<lambda>(f, j). FieldName f @ '' = $'' @ Sprint_d j)
            (zip (non_id (Fields Tail_type)) (idxs 2 (length (non_id (Fields Tail_type)))))) = ''Name = $2''"
    by code_simp
  have 5: "(incr ^^ length (non_id (Fields Tail_type))) 2 = 3" by code_simp
  have 6: "(if Fields Tail_type \<noteq> [] \<and> FieldName (last (Fields Tail_type)) = ''ID''
              \<and> list_ex (\<lambda>f. FieldName f \<noteq> ''ID'') (Fields Tail_type)
          then '','' else []) = '',''" by code_simp
  from t have c: "trailing_comma (Fields Tail_type) = '',''"
    unfolding 6 by blast
  from t have a: "buildInsertStatement Tail_type
      = Returns (''insert into tails (name,) values ($1,) returning id;'')"
    unfolding 1 2 3 c by simp
  from t have b: "buildUpdateStatement Tail_type ''where id = $1'' 2
       = Returns (''update tails set Name = $2, where id = $1;'', 3)"
    unfolding 1 4 5 c by simp
  from a b c show ?thesis by simp
qed

theorem id_only_no_trailing_comma_counterexample:
  "FieldName (last (Fields Only_type)) = ''ID''
   \<and> buildInsertStatement Only_type = Returns ''insert into onlys () values () returning id;''
   \<and> buildUpdateStatement Only_type ''where id = $1'' 2 = Returns (''update onlys set  where id = $1;'', 2)"
  by code_simp

text \<open>
  C10. When the argument has a field \<open>ID\<close> that can be set and is not of a signed
  integer kind, \<open>setIDValue\<close> does not return: the integer assignment panics.
\<close>

theorem setIDValue_panics:
  assumes "getObjectValue arg = Inr argv"
    and "IsValid (FieldByName argv ''ID'')"
    and "CanSet (FieldByName argv ''ID'')"
    and "\<not> int_kind (vKind (FieldByName argv ''ID''))"
  shows "setIDValue arg v = Panics"
  using assms
  by (auto simp: setIDValue_def Let_def SetInt_def vKind_def IsValid_def split: Value.splits)

theorem setIDValue_panics_witness:
  "setIDValue named_pointer 7 = Panics"
proof (rule setIDValue_panics)
  show "getObjectValue named_pointer = Inr (Val Named_type (VStruct [VOther ''a'']) True False)"
    by code_simp
  show "IsValid (FieldByName (Val Named_type (VStruct [VOther ''a'']) True False) ''ID'')"
    by code_simp
  show "CanSet (FieldByName (Val Named_type (VStruct [VOther ''a'']) True False) ''ID'')"
    by code_simp
  show "\<not> int_kind (vKind (FieldByName (Val Named_type (VStruct [VOther ''a'']) True False) ''ID''))"
    by code_simp
qed

end
